theory Spec2Isabelle
  imports Main "HOL-Library.Word"
begin

section \<open>The overseer worker: data model\<close>

text \<open>
  The worker sub-command (\<^verbatim>\<open>cmd_worker.go\<close>) pulls tests from a redis queue, resolves
  the target, runs a protocol test against every resulting address and pushes one
  result per address to the queue \<^verbatim>\<open>overseer.results\<close>.

  A Go \<^verbatim>\<open>error\<close> is modelled by its message, \<^verbatim>\<open>nil\<close> by \<open>None\<close>. Go's \<^verbatim>\<open>int\<close>,
  \<^verbatim>\<open>int64\<close> and \<^verbatim>\<open>time.Duration\<close> are 64-bit two's complement words (the 64-bit
  platforms the worker's images are built for): \<open>+\<close> wraps and comparisons read the
  word with \<open>sint\<close>.
\<close>

type_synonym err = string

type_synonym payload = "string \<rightharpoonup> string"

text \<open>\<^verbatim>\<open>test.Test\<close>, as the worker and the protocol tests use it.\<close>

record Test =
  Type :: string
  Target :: string
  Input :: string
  Arguments :: "string \<rightharpoonup> string"

text \<open>\<^verbatim>\<open>test.TestOptions\<close>: the two fields \<^verbatim>\<open>Execute\<close> copies from the worker.\<close>

record TestOptions =
  opt_Verbose :: bool
  opt_Timeout :: "64 word"

text \<open>\<^verbatim>\<open>redis.Client\<close>, reduced to the options \<^verbatim>\<open>Execute\<close> builds it from.\<close>

datatype redis_Client = NewClient string string "64 word"

text \<open>
  \<^verbatim>\<open>workerCmd\<close>. The field \<^verbatim>\<open>_r\<close> is the pointer to the redis client: \<open>None\<close> is the
  nil pointer.
\<close>

record workerCmd =
  IPv4 :: bool
  IPv6 :: bool
  Retry :: bool
  RetryCount :: "64 word"
  RetryDelay :: "64 word"
  RedisHost :: string
  RedisDB :: "64 word"
  RedisPassword :: string
  Timeout :: "64 word"
  Verbose :: bool
  r_client :: "redis_Client option"

text \<open>\<^verbatim>\<open>net.IP\<close> is a byte slice; \<^verbatim>\<open>url.URL\<close> is reduced to what \<^verbatim>\<open>Hostname()\<close> returns.\<close>

type_synonym IP = "8 word list"

datatype URL = URL (Hostname: string)

subsection \<open>Effects\<close>

text \<open>
  Everything the worker does to the outside is an event of a trace, in the order it
  happens. The lines printed to standard output are kept by their format and arguments.
\<close>

datatype log_line =
    Running string string string
  | TestPassed "64 word" "64 word"
  | TestFailed "64 word" "64 word" err
  | Sleeping "64 word"
  | ResolveWarning string string
  | ParseFailed string err
  | EncodeFailed err
  | PushFailed err

datatype event =
    Printf log_line
  | Lookup string
  | RunTestCall Test string TestOptions
  | Sleep "64 word"
  | RPushCall string payload

text \<open>A call either returns or panics (the Go runtime aborts the process).\<close>

datatype 'a exec = Normal 'a | Panic

text \<open>What a trace shows of each kind of effect.\<close>

fun runs :: "event list \<Rightarrow> (Test \<times> string \<times> TestOptions) list" where
  "runs [] = []"
| "runs (RunTestCall t g opts # tr) = (t, g, opts) # runs tr"
| "runs (e # tr) = runs tr"

fun sleeps :: "event list \<Rightarrow> 64 word list" where
  "sleeps [] = []"
| "sleeps (Sleep d # tr) = d # sleeps tr"
| "sleeps (e # tr) = sleeps tr"

fun pushes :: "event list \<Rightarrow> (string \<times> payload) list" where
  "pushes [] = []"
| "pushes (RPushCall q j # tr) = (q, j) # pushes tr"
| "pushes (e # tr) = pushes tr"

fun lookups :: "event list \<Rightarrow> string list" where
  "lookups [] = []"
| "lookups (Lookup h # tr) = h # lookups tr"
| "lookups (e # tr) = lookups tr"

definition n_runs :: "event list \<Rightarrow> nat" where
  "n_runs tr = length (runs tr)"

subsection \<open>The collaborators of the worker\<close>

text \<open>
  The packages \<^verbatim>\<open>protocols\<close>, \<^verbatim>\<open>test\<close>, \<^verbatim>\<open>net\<close>, \<^verbatim>\<open>net/url\<close>, \<^verbatim>\<open>time\<close> and the
  redis client are parameters of the model:
  \<^item> \<open>ProtocolHandler\<close> is \<^verbatim>\<open>protocols.ProtocolHandler\<close>: the protocol test registered
    for a type, \<open>None\<close> (the nil interface) when there is none;
  \<^item> \<open>ShouldResolveHostname\<close> and \<open>RunTest\<close> are methods of a protocol test. \<open>RunTest\<close>
    takes the number of invocations made before this one, so that the outcome may
    differ from one attempt to the next;
  \<^item> \<open>Sanitize\<close> is \<^verbatim>\<open>Test.Sanitize\<close>;
  \<^item> \<open>url_Parse\<close>, \<open>LookupIP\<close> and \<open>IP_String\<close> are \<^verbatim>\<open>url.Parse\<close>, \<^verbatim>\<open>net.LookupIP\<close> and
    \<^verbatim>\<open>IP.String\<close>;
  \<^item> \<open>Now_Unix\<close> is \<^verbatim>\<open>time.Now().Unix()\<close> and \<open>RPush\<close> the error, if any, that the
    redis client returns for a push; both may depend on all that happened before.
\<close>

record 'probe env =
  ProtocolHandler :: "string \<Rightarrow> 'probe option"
  ShouldResolveHostname :: "'probe \<Rightarrow> bool"
  RunTest :: "'probe \<Rightarrow> nat \<Rightarrow> Test \<Rightarrow> string \<Rightarrow> TestOptions \<Rightarrow> err option"
  Sanitize :: "Test \<Rightarrow> string"
  url_Parse :: "string \<Rightarrow> err + URL"
  LookupIP :: "string \<Rightarrow> err + IP list"
  IP_String :: "IP \<Rightarrow> string"
  Now_Unix :: "event list \<Rightarrow> 64 word"
  RPush :: "event list \<Rightarrow> string \<Rightarrow> payload \<Rightarrow> err option"

subsection \<open>Library functions with a fixed meaning\<close>

text \<open>\<^verbatim>\<open>strings.HasPrefix\<close> and \<^verbatim>\<open>strings.Contains\<close>.\<close>

fun HasPrefix :: "string \<Rightarrow> string \<Rightarrow> bool" where
  "HasPrefix s [] = True"
| "HasPrefix [] (c # cs) = False"
| "HasPrefix (d # s) (c # cs) = (d = c \<and> HasPrefix s cs)"

fun Contains :: "string \<Rightarrow> string \<Rightarrow> bool" where
  "Contains [] sub = HasPrefix [] sub"
| "Contains (d # s) sub = (HasPrefix (d # s) sub \<or> Contains s sub)"

text \<open>\<^verbatim>\<open>fmt.Sprintf("%d", n)\<close>: the decimal digits of a signed integer.\<close>

fun digits10 :: "nat \<Rightarrow> string" where
  "digits10 n =
     (if n < 10 then [char_of (48 + n)]
      else digits10 (n div 10) @ [char_of (48 + n mod 10)])"

declare digits10.simps [simp del]

definition fmt_d :: "int \<Rightarrow> string" where
  "fmt_d i = (if i < 0 then CHR ''-'' # digits10 (nat (- i)) else digits10 (nat i))"

text \<open>
  \<^verbatim>\<open>IP.To4\<close> and \<^verbatim>\<open>IP.To16\<close> of package \<^verbatim>\<open>net\<close>: the 4-byte form of a 4-byte address
  or of a 16-byte address with the prefix of an IPv4-mapped address, and the 16-byte
  form of a 4-byte or 16-byte address.
\<close>

definition v4InV6Prefix :: IP where
  "v4InV6Prefix = [0, 0, 0, 0, 0, 0, 0, 0, 0, 0, 0xff, 0xff]"

definition To4 :: "IP \<Rightarrow> IP option" where
  "To4 ip =
     (if length ip = 4 then Some ip
      else if length ip = 16 \<and> take 12 ip = v4InV6Prefix then Some (drop 12 ip)
      else None)"

definition To16 :: "IP \<Rightarrow> IP option" where
  "To16 ip =
     (if length ip = 4 then Some (v4InV6Prefix @ ip)
      else if length ip = 16 then Some ip
      else None)"

text \<open>
  \<^verbatim>\<open>json.Marshal\<close> of a \<^verbatim>\<open>map[string]string\<close>: the JSON object with the map's keys
  and values. The payload is kept as that object; the encoder has no error for a
  map of strings.
\<close>

definition json_Marshal :: "(string \<rightharpoonup> string) \<Rightarrow> err + payload" where
  "json_Marshal msg = Inr msg"

section \<open>The worker\<close>

text \<open>\<^verbatim>\<open>verbose\<close> shows a message only if the worker runs verbosely.\<close>

definition verbose :: "workerCmd \<Rightarrow> log_line \<Rightarrow> event list \<Rightarrow> event list" where
  "verbose p txt tr = (if Verbose p then tr @ [Printf txt] else tr)"

text \<open>
  \<^verbatim>\<open>notify\<close> stores the result of a test in the redis queue. It returns the error of
  the call and the trace.
\<close>

definition notify ::
  "'probe env \<Rightarrow> workerCmd \<Rightarrow> Test \<Rightarrow> err option \<Rightarrow> event list \<Rightarrow> err option \<times> event list"
where
  "notify E p test result tr =
     (case r_client p of
        None \<Rightarrow> (None, tr)
      | Some client \<Rightarrow>
          (let msg = Map.empty(''input'' \<mapsto> Input test,
                      ''result'' \<mapsto> ''passed'',
                      ''target'' \<mapsto> Target test,
                      ''time'' \<mapsto> fmt_d (sint (Now_Unix E tr)),
                      ''type'' \<mapsto> Type test);
               msg = (case result of
                        None \<Rightarrow> msg
                      | Some e \<Rightarrow> msg(''result'' \<mapsto> ''failed'', ''error'' \<mapsto> e))
           in (case json_Marshal msg of
                 Inl e \<Rightarrow> (Some e, tr @ [Printf (EncodeFailed e)])
               | Inr j \<Rightarrow>
                   (case RPush E tr ''overseer.results'' j of
                      Some e \<Rightarrow>
                        (Some e, tr @ [RPushCall ''overseer.results'' j, Printf (PushFailed e)])
                    | None \<Rightarrow> (None, tr @ [RPushCall ''overseer.results'' j])))))"

text \<open>
  The host of the target (\<^verbatim>\<open>runTest\<close>, lines 224 to 230): a target that looks like a
  URI is parsed and its host taken; a parse error is returned.
\<close>

definition uri_host :: "'probe env \<Rightarrow> string \<Rightarrow> err + string" where
  "uri_host E testTarget =
     (if Contains testTarget ''://'' then
        (case url_Parse E testTarget of
           Inl e \<Rightarrow> Inl e
         | Inr u \<Rightarrow> Inr (Hostname u))
      else Inr testTarget)"

text \<open>
  The addresses to test (lines 254 to 265): every resolved address of an enabled
  family, in the order of the lookup.
\<close>

fun collect_targets :: "'probe env \<Rightarrow> workerCmd \<Rightarrow> IP list \<Rightarrow> string list \<Rightarrow> string list" where
  "collect_targets E p [] targets = targets"
| "collect_targets E p (ip # ips) targets =
     (let targets =
            (if To4 ip \<noteq> None then
               (if IPv4 p then targets @ [IP_String E ip] else targets)
             else targets);
          targets =
            (if To16 ip \<noteq> None \<and> To4 ip = None then
               (if IPv6 p then targets @ [IP_String E ip] else targets)
             else targets)
      in collect_targets E p ips targets)"

text \<open>
  The attempt loop (lines 304 to 337). A passing test leaves the loop by setting
  \<^verbatim>\<open>attempt = maxAttempts + 1\<close>; a failing one is followed by a sleep. Calling \<^verbatim>\<open>RunTest\<close>
  on the nil interface panics. The loop need not end (\<open>None\<close>): when \<^verbatim>\<open>maxAttempts\<close> is
  the largest integer, \<^verbatim>\<open>maxAttempts + 1\<close> wraps to the smallest.
\<close>

partial_function (option) attempts ::
  "'probe env \<Rightarrow> workerCmd \<Rightarrow> 'probe option \<Rightarrow> Test \<Rightarrow> string \<Rightarrow> TestOptions \<Rightarrow> 64 word
     \<Rightarrow> 64 word \<Rightarrow> err option \<Rightarrow> event list \<Rightarrow> (err option exec \<times> event list) option"
where
  "attempts E p tmp tst target opts maxAttempts attempt result tr =
     (if sint attempt < sint maxAttempts then
        (let attempt = attempt + 1 in
         case tmp of
           None \<Rightarrow> Some (Panic, tr)
         | Some probe \<Rightarrow>
             (let result = RunTest E probe (n_runs tr) tst target opts;
                  tr = tr @ [RunTestCall tst target opts]
              in case result of
                   None \<Rightarrow>
                     attempts E p tmp tst target opts maxAttempts (maxAttempts + 1) result
                       (verbose p (TestPassed attempt maxAttempts) tr)
                 | Some e \<Rightarrow>
                     attempts E p tmp tst target opts maxAttempts attempt result
                       (verbose p (Sleeping (RetryDelay p))
                          (verbose p (TestFailed attempt maxAttempts e) tr)
                        @ [Sleep (RetryDelay p)])))
      else Some (Normal result, tr))"

text \<open>
  The body of the loop over the targets (lines 270 to 367): the attempts against one
  target, then the notification from a copy of the test.
\<close>

definition run_target ::
  "'probe env \<Rightarrow> workerCmd \<Rightarrow> 'probe option \<Rightarrow> Test \<Rightarrow> TestOptions \<Rightarrow> string \<Rightarrow> string
     \<Rightarrow> string \<Rightarrow> event list \<Rightarrow> (unit exec \<times> event list) option"
where
  "run_target E p tmp tst opts testType testTarget target tr =
     (let tr = verbose p (Running testType testTarget target) tr;
          attempt = 0;
          maxAttempts = RetryCount p;
          maxAttempts = (if Retry p = False then attempt + 1 else maxAttempts)
      in case attempts E p tmp tst target opts maxAttempts attempt None tr of
           None \<Rightarrow> None
         | Some (Panic, tr) \<Rightarrow> Some (Panic, tr)
         | Some (Normal result, tr) \<Rightarrow>
             (let copy = tst;
                  copy = copy\<lparr>Target := target\<rparr>;
                  copy = copy\<lparr>Input := Sanitize E tst\<rparr>
              in Some (Normal (), snd (notify E p copy result tr))))"

fun run_targets ::
  "'probe env \<Rightarrow> workerCmd \<Rightarrow> 'probe option \<Rightarrow> Test \<Rightarrow> TestOptions \<Rightarrow> string \<Rightarrow> string
     \<Rightarrow> string list \<Rightarrow> event list \<Rightarrow> (unit exec \<times> event list) option"
where
  "run_targets E p tmp tst opts testType testTarget [] tr = Some (Normal (), tr)"
| "run_targets E p tmp tst opts testType testTarget (target # targets) tr =
     (case run_target E p tmp tst opts testType testTarget target tr of
        None \<Rightarrow> None
      | Some (Panic, tr) \<Rightarrow> Some (Panic, tr)
      | Some (Normal u, tr) \<Rightarrow> run_targets E p tmp tst opts testType testTarget targets tr)"

text \<open>
  \<^verbatim>\<open>runTest\<close> receives a test, executes it and issues the notifications. It returns
  the error of the call (\<open>None\<close> is nil) or panics, with the trace.
\<close>

definition runTest ::
  "'probe env \<Rightarrow> workerCmd \<Rightarrow> Test \<Rightarrow> TestOptions \<Rightarrow> event list
     \<Rightarrow> (err option exec \<times> event list) option"
where
  "runTest E p tst opts tr =
     (let testType = Type tst;
          testTarget = Target tst;
          tmp = ProtocolHandler E testType
      in case uri_host E testTarget of
           Inl e \<Rightarrow> Some (Normal (Some e), tr)
         | Inr testTarget \<Rightarrow>
             (case LookupIP E testTarget of
                Inl e \<Rightarrow>
                  Some (Normal (Some e),
                    snd (notify E p tst (Some (''Failed to resolve name '' @ testTarget))
                           (tr @ [Lookup testTarget]))
                    @ [Printf (ResolveWarning testTarget testType)])
              | Inr ips \<Rightarrow>
                  (case run_targets E p tmp tst opts testType testTarget
                          (collect_targets E p ips []) (tr @ [Lookup testTarget]) of
                     None \<Rightarrow> None
                   | Some (Panic, tr) \<Rightarrow> Some (Panic, tr)
                   | Some (Normal u, tr) \<Rightarrow> Some (Normal None, tr))))"



section \<open>What the properties speak about\<close>

text \<open>
  A Result message of the results queue, for a test as notified and the outcome of
  its last attempt: the fields \<^verbatim>\<open>input\<close>, \<^verbatim>\<open>type\<close>, \<^verbatim>\<open>target\<close>, \<^verbatim>\<open>result\<close> and \<^verbatim>\<open>time\<close>,
  and \<^verbatim>\<open>error\<close> for a failure only.
\<close>

definition wire_Result :: "Test \<Rightarrow> err option \<Rightarrow> payload \<Rightarrow> bool" where
  "wire_Result test result m =
     (m ''input'' = Some (Input test) \<and>
      m ''type'' = Some (Type test) \<and>
      m ''target'' = Some (Target test) \<and>
      m ''result'' = Some (if result = None then ''passed'' else ''failed'') \<and>
      m ''error'' = result \<and>
      (\<exists>t. m ''time'' = Some (fmt_d t)) \<and>
      dom m = {''input'', ''type'', ''target'', ''result'', ''time''}
                \<union> (if result = None then {} else {''error''}))"

text \<open>
  The address families as the specification words them: an address with a 4-byte form
  is IPv4; an address with a 16-byte form and no 4-byte form is IPv6. An address is
  tested when its family is enabled.
\<close>

definition is_IPv4 :: "IP \<Rightarrow> bool" where
  "is_IPv4 ip = (To4 ip \<noteq> None)"

definition is_IPv6 :: "IP \<Rightarrow> bool" where
  "is_IPv6 ip = (To16 ip \<noteq> None \<and> To4 ip = None)"

definition family_enabled :: "workerCmd \<Rightarrow> IP \<Rightarrow> bool" where
  "family_enabled p ip = (is_IPv4 ip \<and> IPv4 p \<or> is_IPv6 ip \<and> IPv6 p)"

text \<open>The number of attempts the worker allows for one target (lines 280 to 288).\<close>

definition attempt_budget :: "workerCmd \<Rightarrow> 64 word" where
  "attempt_budget p = (if Retry p = False then 0 + 1 else RetryCount p)"

section \<open>An example deployment\<close>

text \<open>
  The protocol tests of the example: the Kubernetes service test of the repository,
  registered as \<^verbatim>\<open>k8s-svc\<close>, whose \<^verbatim>\<open>ShouldResolveHostname\<close> returns false, and a test
  registered as \<^verbatim>\<open>https\<close>. The cluster and the network are outside the model: the
  outcome of the i-th invocation of \<^verbatim>\<open>RunTest\<close> is given by a script.
\<close>

datatype ProtocolTest = K8SSvcTest | ScriptedTest

definition K8SSvcTest_ShouldResolveHostname :: bool where
  "K8SSvcTest_ShouldResolveHostname = False"

text \<open>
  \<^verbatim>\<open>strings.Replace(s, old, new, -1)\<close> for a non-empty \<^verbatim>\<open>old\<close>; the first argument counts
  the characters of a replaced occurrence still to skip.
\<close>

fun replace_from :: "nat \<Rightarrow> string \<Rightarrow> string \<Rightarrow> string \<Rightarrow> string" where
  "replace_from k [] old new = []"
| "replace_from (Suc k) (c # s) old new = replace_from k s old new"
| "replace_from 0 (c # s) old new =
     (if old \<noteq> [] \<and> HasPrefix (c # s) old
      then new @ replace_from (length old - 1) s old new
      else c # replace_from 0 s old new)"

text \<open>The example's \<^verbatim>\<open>Sanitize\<close> censors the value of the password argument.\<close>

definition censor_password :: "Test \<Rightarrow> string" where
  "censor_password t =
     (case Arguments t ''password'' of
        None \<Rightarrow> Input t
      | Some pw \<Rightarrow> replace_from 0 (Input t) pw ''CENSORED'')"

definition example_v4 :: IP where
  "example_v4 = [93, 184, 216, 34]"

definition example_v6 :: IP where
  "example_v6 = [0x26, 0x06, 0x28, 0x00, 0x02, 0x20, 0x00, 0x01,
                 0x02, 0x48, 0x18, 0x93, 0x25, 0xc8, 0x19, 0x46]"

definition example_env :: "(nat \<Rightarrow> err option) \<Rightarrow> ProtocolTest env" where
  "example_env script =
     \<lparr>ProtocolHandler =
        (\<lambda>t. if t = ''k8s-svc'' then Some K8SSvcTest
             else if t = ''https'' then Some ScriptedTest else None),
      ShouldResolveHostname =
        (\<lambda>q. case q of K8SSvcTest \<Rightarrow> K8SSvcTest_ShouldResolveHostname | ScriptedTest \<Rightarrow> True),
      RunTest = (\<lambda>q i tst target opts. script i),
      Sanitize = censor_password,
      url_Parse =
        (\<lambda>s. if s = ''https://example.com'' then Inr (URL ''example.com'')
             else Inl ''parse error''),
      LookupIP =
        (\<lambda>h. if h = ''example.com'' then Inr [example_v4, example_v6]
             else if h = ''ipv6.example.com'' then Inr [example_v6]
             else Inl (''lookup '' @ h @ '': no such host'')),
      IP_String =
        (\<lambda>ip. if ip = example_v4 then ''93.184.216.34''
              else ''2606:2800:220:1:248:1893:25c8:1946''),
      Now_Unix = (\<lambda>tr. 1500000000),
      RPush = (\<lambda>tr q j. None)\<rparr>"

text \<open>The worker with the defaults of \<^verbatim>\<open>SetFlags\<close>, connected as \<^verbatim>\<open>Execute\<close> does.\<close>

definition example_worker :: workerCmd where
  "example_worker =
     \<lparr>IPv4 = True, IPv6 = True, Retry = True, RetryCount = 5,
      RetryDelay = 5000000000, RedisHost = ''localhost:6379'', RedisDB = 0,
      RedisPassword = [], Timeout = 10000000000, Verbose = False,
      r_client = Some (NewClient ''localhost:6379'' [] 0)\<rparr>"

definition example_opts :: TestOptions where
  "example_opts = \<lparr>opt_Verbose = False, opt_Timeout = 10000000000\<rparr>"

definition https_test :: Test where
  "https_test =
     \<lparr>Type = ''https'', Target = ''https://example.com'',
      Input = ''https://example.com must run https'', Arguments = Map.empty\<rparr>"

definition login_test :: Test where
  "login_test =
     \<lparr>Type = ''https'', Target = ''example.com'',
      Input = ''example.com must run https with password hunter2'',
      Arguments = Map.empty(''password'' \<mapsto> ''hunter2'')\<rparr>"

definition unresolvable_test :: Test where
  "unresolvable_test =
     \<lparr>Type = ''https'', Target = ''nowhere.invalid'',
      Input = ''nowhere.invalid must run https with password hunter2'',
      Arguments = Map.empty(''password'' \<mapsto> ''hunter2'')\<rparr>"

text \<open>The check of the repository's example \<^verbatim>\<open>checks.list\<close>, and a test of no registered type.\<close>

definition k8s_test :: Test where
  "k8s_test =
     \<lparr>Type = ''k8s-svc'', Target = ''default/kubernetes'',
      Input = ''default/kubernetes must run k8s-svc'', Arguments = Map.empty\<rparr>"




section \<open>Auxiliary facts\<close>

subsection \<open>Counting without wrap-around\<close>

lemma sint_succ: "sint (a::64 word) < sint (b::64 word) \<Longrightarrow> sint (a + 1) = sint a + 1"
proof -
  assume h: "sint a < sint b"
  have "sint b < 2 ^ 63" using sint_lt [of b] by simp
  moreover have "- (2 ^ 63) \<le> sint a" using sint_ge [of a] by simp
  ultimately have "- (2 ^ 63) \<le> sint a + 1" "sint a + 1 < 2 ^ 63" using h by linarith+
  then show ?thesis
    by (simp add: sint_word_ariths signed_take_bit_int_eq_self)
qed

lemma sint_succ_max: "sint (m::64 word) < 2 ^ 63 - 1 \<Longrightarrow> sint (m + 1) = sint m + 1"
proof -
  assume h: "sint m < 2 ^ 63 - 1"
  have "- (2 ^ 63) \<le> sint m" using sint_ge [of m] by simp
  then have "- (2 ^ 63) \<le> sint m + 1" "sint m + 1 < 2 ^ 63" using h by linarith+
  then show ?thesis
    by (simp add: sint_word_ariths signed_take_bit_int_eq_self)
qed

subsection \<open>What a longer trace shows\<close>

lemma runs_append [simp]: "runs (a @ b) = runs a @ runs b"
  by (induction a rule: runs.induct) simp_all

lemma sleeps_append [simp]: "sleeps (a @ b) = sleeps a @ sleeps b"
  by (induction a rule: sleeps.induct) simp_all

lemma pushes_append [simp]: "pushes (a @ b) = pushes a @ pushes b"
  by (induction a rule: pushes.induct) simp_all

lemma lookups_append [simp]: "lookups (a @ b) = lookups a @ lookups b"
  by (induction a rule: lookups.induct) simp_all

lemma verbose_proj [simp]:
  "runs (verbose p l tr) = runs tr" "sleeps (verbose p l tr) = sleeps tr"
  "pushes (verbose p l tr) = pushes tr" "lookups (verbose p l tr) = lookups tr"
  by (simp_all add: verbose_def)

subsection \<open>One step of the attempt loop\<close>

lemma attempts_stop:
  "\<not> sint attempt < sint maxAttempts \<Longrightarrow>
   attempts E p tmp tst target opts maxAttempts attempt result tr = Some (Normal result, tr)"
  by (subst attempts.simps) simp


lemma attempts_fail:
  "sint attempt < sint maxAttempts \<Longrightarrow> RunTest E probe (n_runs tr) tst target opts = Some e \<Longrightarrow>
   attempts E p (Some probe) tst target opts maxAttempts attempt result tr =
   attempts E p (Some probe) tst target opts maxAttempts (attempt + 1) (Some e)
     (verbose p (Sleeping (RetryDelay p))
        (verbose p (TestFailed (attempt + 1) maxAttempts e) (tr @ [RunTestCall tst target opts]))
      @ [Sleep (RetryDelay p)])"
  by (subst attempts.simps) (simp add: Let_def)

lemma attempts_pass:
  assumes "sint attempt < sint maxAttempts"
    and "RunTest E probe (n_runs tr) tst target opts = None"
    and "sint maxAttempts < 2 ^ 63 - 1"
  shows "attempts E p (Some probe) tst target opts maxAttempts attempt result tr =
         Some (Normal None,
           verbose p (TestPassed (attempt + 1) maxAttempts) (tr @ [RunTestCall tst target opts]))"
proof -
  have "\<not> sint (maxAttempts + 1) < sint maxAttempts"
    using sint_succ_max [OF assms(3)] by simp
  then show ?thesis
    using assms(1,2) by (subst attempts.simps) (simp add: Let_def attempts_stop)
qed

text \<open>A run of failing attempts: each is one call and one sleep, and the loop goes on.\<close>

lemma attempts_fails:
  assumes "\<forall>i<j. RunTest E probe (n_runs tr + i) tst target opts \<noteq> None"
    and "sint attempt + int j \<le> sint maxAttempts"
  shows "\<exists>a' new.
           attempts E p (Some probe) tst target opts maxAttempts attempt result tr =
           attempts E p (Some probe) tst target opts maxAttempts a'
             (if j = 0 then result else RunTest E probe (n_runs tr + (j - 1)) tst target opts)
             (tr @ new) \<and>
           sint a' = sint attempt + int j \<and>
           runs new = replicate j (tst, target, opts) \<and>
           sleeps new = replicate j (RetryDelay p) \<and>
           pushes new = [] \<and> lookups new = []"
  using assms
proof (induction j arbitrary: attempt result tr)
  case 0
  show ?case
    by (rule exI [of _ attempt], rule exI [of _ "[]"]) simp
next
  case (Suc j)
  from Suc.prems(1) obtain e where e: "RunTest E probe (n_runs tr) tst target opts = Some e"
    by (metis add.right_neutral not_None_eq zero_less_Suc)
  have lt: "sint attempt < sint maxAttempts"
    using Suc.prems(2) by simp
  define blk where "blk = drop (length tr) (verbose p (Sleeping (RetryDelay p))
        (verbose p (TestFailed (attempt + 1) maxAttempts e) (tr @ [RunTestCall tst target opts]))
      @ [Sleep (RetryDelay p)])"
  have tr1: "verbose p (Sleeping (RetryDelay p))
        (verbose p (TestFailed (attempt + 1) maxAttempts e) (tr @ [RunTestCall tst target opts]))
      @ [Sleep (RetryDelay p)] = tr @ blk"
    by (simp add: blk_def verbose_def)
  have blk: "runs blk = [(tst, target, opts)]" "sleeps blk = [RetryDelay p]"
    "pushes blk = []" "lookups blk = []"
    by (simp_all add: blk_def verbose_def)
  have step: "attempts E p (Some probe) tst target opts maxAttempts attempt result tr =
    attempts E p (Some probe) tst target opts maxAttempts (attempt + 1) (Some e) (tr @ blk)"
    using attempts_fail [OF lt e] tr1 by simp
  have n1: "n_runs (tr @ blk) = Suc (n_runs tr)"
    by (simp add: n_runs_def blk)
  have p1: "\<forall>i<j. RunTest E probe (n_runs (tr @ blk) + i) tst target opts \<noteq> None"
  proof (intro allI impI)
    fix i assume "i < j"
    then have "Suc i < Suc j" by simp
    with Suc.prems(1) have "RunTest E probe (n_runs tr + Suc i) tst target opts \<noteq> None"
      by blast
    then show "RunTest E probe (n_runs (tr @ blk) + i) tst target opts \<noteq> None"
      by (simp add: n1)
  qed
  have p2: "sint (attempt + 1) + int j \<le> sint maxAttempts"
    using Suc.prems(2) sint_succ [OF lt] by simp
  from Suc.IH [OF p1 p2, of "Some e"] obtain a' new where
    ih: "attempts E p (Some probe) tst target opts maxAttempts (attempt + 1) (Some e) (tr @ blk) =
           attempts E p (Some probe) tst target opts maxAttempts a'
             (if j = 0 then Some e else RunTest E probe (n_runs (tr @ blk) + (j - 1)) tst target opts)
             ((tr @ blk) @ new)"
      "sint a' = sint (attempt + 1) + int j"
      "runs new = replicate j (tst, target, opts)"
      "sleeps new = replicate j (RetryDelay p)"
      "pushes new = []" "lookups new = []"
    by blast
  have r: "(if j = 0 then Some e else RunTest E probe (n_runs (tr @ blk) + (j - 1)) tst target opts)
         = RunTest E probe (n_runs tr + (Suc j - 1)) tst target opts"
    using e by (cases j) (simp_all add: n1)
  show ?case
    apply (rule exI [of _ a'], rule exI [of _ "blk @ new"])
    using step ih r blk sint_succ [OF lt] by simp
qed


subsection \<open>The notification\<close>

lemma notify_connected:
  assumes "r_client p = Some c"
  shows "\<exists>out m. snd (notify E p test result tr) = tr @ out \<and>
           pushes out = [(''overseer.results'', m)] \<and> wire_Result test result m \<and>
           runs out = [] \<and> sleeps out = [] \<and> lookups out = []"
proof (cases "RPush E tr ''overseer.results''
    (case result of
       None \<Rightarrow> Map.empty(''input'' \<mapsto> Input test, ''result'' \<mapsto> ''passed'',
                ''target'' \<mapsto> Target test, ''time'' \<mapsto> fmt_d (sint (Now_Unix E tr)),
                ''type'' \<mapsto> Type test)
     | Some e \<Rightarrow> Map.empty(''input'' \<mapsto> Input test, ''result'' \<mapsto> ''passed'',
                ''target'' \<mapsto> Target test, ''time'' \<mapsto> fmt_d (sint (Now_Unix E tr)),
                ''type'' \<mapsto> Type test, ''result'' \<mapsto> ''failed'', ''error'' \<mapsto> e))")
  case None
  then show ?thesis
    using assms
    by (cases result) (auto simp: notify_def json_Marshal_def wire_Result_def Let_def)
next
  case (Some e)
  then show ?thesis
    using assms
    by (cases result) (auto simp: notify_def json_Marshal_def wire_Result_def Let_def)
qed

lemma notify_not_connected:
  "r_client p = None \<Longrightarrow> notify E p test result tr = (None, tr)"
  by (simp add: notify_def)


subsection \<open>The attempt loop returns\<close>

lemma attempts_fail_block:
  assumes "sint attempt < sint maxAttempts"
    and "RunTest E probe (n_runs tr) tst target opts = Some e"
  shows "\<exists>blk. attempts E p (Some probe) tst target opts maxAttempts attempt result tr =
           attempts E p (Some probe) tst target opts maxAttempts (attempt + 1) (Some e) (tr @ blk) \<and>
           runs blk = [(tst, target, opts)] \<and> sleeps blk = [RetryDelay p] \<and>
           pushes blk = [] \<and> lookups blk = []"
  by (rule exI [of _ "(if Verbose p then [RunTestCall tst target opts,
          Printf (TestFailed (attempt + 1) maxAttempts e), Printf (Sleeping (RetryDelay p))]
        else [RunTestCall tst target opts]) @ [Sleep (RetryDelay p)]"])
     (simp add: attempts_fail [OF assms] verbose_def)

lemma attempts_pass_block:
  assumes "sint attempt < sint maxAttempts"
    and "RunTest E probe (n_runs tr) tst target opts = None"
    and "sint maxAttempts < 2 ^ 63 - 1"
  shows "\<exists>blk. attempts E p (Some probe) tst target opts maxAttempts attempt result tr =
           Some (Normal None, tr @ blk) \<and>
           runs blk = [(tst, target, opts)] \<and> sleeps blk = [] \<and>
           pushes blk = [] \<and> lookups blk = []"
  by (rule exI [of _ "if Verbose p then [RunTestCall tst target opts,
          Printf (TestPassed (attempt + 1) maxAttempts)]
        else [RunTestCall tst target opts]"])
     (simp add: attempts_pass [OF assms] verbose_def)

lemma attempts_terminates:
  assumes "sint maxAttempts < 2 ^ 63 - 1"
  shows "\<exists>r new n.
           attempts E p (Some probe) tst target opts maxAttempts attempt result tr =
             Some (Normal r, tr @ new) \<and>
           runs new = replicate n (tst, target, opts) \<and>
           pushes new = [] \<and> lookups new = [] \<and>
           (if sint attempt < sint maxAttempts then 1 \<le> n else n = 0)"
proof (induction "nat (sint maxAttempts - sint attempt)" arbitrary: attempt result tr
    rule: less_induct)
  case less
  show ?case
  proof (cases "sint attempt < sint maxAttempts")
    case False
    then show ?thesis
      by (intro exI [of _ result] exI [of _ "[]"] exI [of _ 0]) (simp add: attempts_stop)
  next
    case lt: True
    show ?thesis
    proof (cases "RunTest E probe (n_runs tr) tst target opts")
      case None
      from attempts_pass_block [OF lt None assms, of p result] obtain blk where
        "attempts E p (Some probe) tst target opts maxAttempts attempt result tr =
           Some (Normal None, tr @ blk)"
        "runs blk = [(tst, target, opts)]" "pushes blk = []" "lookups blk = []"
        by blast
      then show ?thesis
        using lt by (intro exI [of _ None] exI [of _ blk] exI [of _ 1]) simp
    next
      case (Some e)
      from attempts_fail_block [OF lt Some, of p result] obtain blk where
        blk: "attempts E p (Some probe) tst target opts maxAttempts attempt result tr =
           attempts E p (Some probe) tst target opts maxAttempts (attempt + 1) (Some e) (tr @ blk)"
        "runs blk = [(tst, target, opts)]" "pushes blk = []" "lookups blk = []"
        by blast
      have "nat (sint maxAttempts - sint (attempt + 1)) < nat (sint maxAttempts - sint attempt)"
        using lt sint_succ [OF lt] by simp
      from less [OF this, of "Some e" "tr @ blk"] obtain r new n where
        ih: "attempts E p (Some probe) tst target opts maxAttempts (attempt + 1) (Some e) (tr @ blk) =
             Some (Normal r, (tr @ blk) @ new)"
          "runs new = replicate n (tst, target, opts)" "pushes new = []" "lookups new = []"
        by blast
      show ?thesis
        using lt blk ih
        by (intro exI [of _ r] exI [of _ "blk @ new"] exI [of _ "Suc n"]) simp
    qed
  qed
qed

subsection \<open>The targets are the addresses of the enabled families\<close>

lemma collect_targets_filter:
  "collect_targets E p ips targets = targets @ map (IP_String E) (filter (family_enabled p) ips)"
  by (induction ips arbitrary: targets)
     (auto simp: family_enabled_def is_IPv4_def is_IPv6_def Let_def)

subsection \<open>One target, and the loop over the targets\<close>

lemma n_runs_append [simp]: "n_runs (a @ b) = n_runs a + n_runs b"
  by (simp add: n_runs_def)

lemma running_block:
  "\<exists>pre. verbose p l tr = tr @ pre \<and> runs pre = [] \<and> sleeps pre = [] \<and>
         pushes pre = [] \<and> lookups pre = []"
  by (rule exI [of _ "if Verbose p then [Printf l] else []"]) (simp add: verbose_def)

lemma run_target_unfold:
  "run_target E p tmp tst opts testType testTarget target tr =
     (case attempts E p tmp tst target opts (attempt_budget p) 0 None
             (verbose p (Running testType testTarget target) tr) of
        None \<Rightarrow> None
      | Some (Panic, tr') \<Rightarrow> Some (Panic, tr')
      | Some (Normal result, tr') \<Rightarrow>
          Some (Normal (),
            snd (notify E p (tst\<lparr>Target := target, Input := Sanitize E tst\<rparr>) result tr')))"
  by (simp add: run_target_def attempt_budget_def Let_def split: option.splits exec.splits prod.splits)

lemma run_target_after_attempts:
  assumes conn: "r_client p = Some c"
    and att: "attempts E p tmp tst target opts (attempt_budget p) 0 None (tr @ pre)
                = Some (Normal result, (tr @ pre) @ mid)"
    and pre: "verbose p (Running testType testTarget target) tr = tr @ pre"
  shows "\<exists>out m. run_target E p tmp tst opts testType testTarget target tr
                   = Some (Normal (), tr @ pre @ mid @ out) \<and>
           pushes out = [(''overseer.results'', m)] \<and>
           wire_Result (tst\<lparr>Target := target, Input := Sanitize E tst\<rparr>) result m \<and>
           runs out = [] \<and> sleeps out = [] \<and> lookups out = []"
proof -
  from notify_connected [OF conn, of E "tst\<lparr>Target := target, Input := Sanitize E tst\<rparr>"
      result "(tr @ pre) @ mid"]
  obtain out m where
    out: "snd (notify E p (tst\<lparr>Target := target, Input := Sanitize E tst\<rparr>) result ((tr @ pre) @ mid))
            = ((tr @ pre) @ mid) @ out"
      "pushes out = [(''overseer.results'', m)]"
      "wire_Result (tst\<lparr>Target := target, Input := Sanitize E tst\<rparr>) result m"
      "runs out = []" "sleeps out = []" "lookups out = []"
    by blast
  show ?thesis
    using out att pre
    by (intro exI [of _ out] exI [of _ m]) (simp add: run_target_unfold)
qed

lemma run_target_pass_at:
  assumes conn: "r_client p = Some c"
    and retry: "Retry p"
    and k: "1 \<le> k" "int k \<le> sint (RetryCount p)"
    and nowrap: "sint (RetryCount p) < 2 ^ 63 - 1"
    and fails: "\<forall>i<k - 1. RunTest E probe (n_runs tr + i) tst target opts \<noteq> None"
    and pass: "RunTest E probe (n_runs tr + (k - 1)) tst target opts = None"
  shows "\<exists>new m. run_target E p (Some probe) tst opts testType testTarget target tr
                   = Some (Normal (), tr @ new) \<and>
           runs new = replicate k (tst, target, opts) \<and>
           sleeps new = replicate (k - 1) (RetryDelay p) \<and>
           pushes new = [(''overseer.results'', m)] \<and>
           wire_Result (tst\<lparr>Target := target, Input := Sanitize E tst\<rparr>) None m \<and>
           lookups new = []"
proof -
  have budget: "attempt_budget p = RetryCount p"
    using retry by (simp add: attempt_budget_def)
  from running_block [of p "Running testType testTarget target" tr] obtain pre where
    pre: "verbose p (Running testType testTarget target) tr = tr @ pre"
      "runs pre = []" "sleeps pre = []" "pushes pre = []" "lookups pre = []"
    by blast
  have n0: "n_runs (tr @ pre) = n_runs tr"
    by (simp add: n_runs_def pre)
  have f: "\<forall>i<k - 1. RunTest E probe (n_runs (tr @ pre) + i) tst target opts \<noteq> None"
    using fails n0 by simp
  have b: "sint (0::64 word) + int (k - 1) \<le> sint (RetryCount p)"
    using k by simp
  from attempts_fails [OF f b, of p None] obtain a' new1 where
    l1: "attempts E p (Some probe) tst target opts (RetryCount p) 0 None (tr @ pre) =
         attempts E p (Some probe) tst target opts (RetryCount p) a'
           (if k - 1 = 0 then None
            else RunTest E probe (n_runs (tr @ pre) + (k - 1 - 1)) tst target opts)
           ((tr @ pre) @ new1)"
      "sint a' = sint (0::64 word) + int (k - 1)"
      "runs new1 = replicate (k - 1) (tst, target, opts)"
      "sleeps new1 = replicate (k - 1) (RetryDelay p)"
      "pushes new1 = []" "lookups new1 = []"
    by blast
  have lt: "sint a' < sint (RetryCount p)"
    using l1(2) k by simp
  have n1: "n_runs ((tr @ pre) @ new1) = n_runs tr + (k - 1)"
    by (simp add: n_runs_def pre l1)
  have ps: "RunTest E probe (n_runs ((tr @ pre) @ new1)) tst target opts = None"
    using pass n1 by simp
  from attempts_pass_block [OF lt ps nowrap, of p] obtain blk where
    l2: "attempts E p (Some probe) tst target opts (RetryCount p) a'
           (if k - 1 = 0 then None
            else RunTest E probe (n_runs (tr @ pre) + (k - 1 - 1)) tst target opts)
           ((tr @ pre) @ new1) = Some (Normal None, ((tr @ pre) @ new1) @ blk)"
      "runs blk = [(tst, target, opts)]" "sleeps blk = []" "pushes blk = []" "lookups blk = []"
    by blast
  have att: "attempts E p (Some probe) tst target opts (attempt_budget p) 0 None (tr @ pre)
               = Some (Normal None, (tr @ pre) @ (new1 @ blk))"
    using l1(1) l2(1) budget by simp
  from run_target_after_attempts [OF conn att pre(1)] obtain out m where
    out: "run_target E p (Some probe) tst opts testType testTarget target tr
            = Some (Normal (), tr @ pre @ (new1 @ blk) @ out)"
      "pushes out = [(''overseer.results'', m)]"
      "wire_Result (tst\<lparr>Target := target, Input := Sanitize E tst\<rparr>) None m"
      "runs out = []" "sleeps out = []" "lookups out = []"
    by blast
  have rep: "replicate (k - 1) (tst, target, opts) @ [(tst, target, opts)]
               = replicate k (tst, target, opts)"
    using k(1) by (cases k) (simp_all add: replicate_append_same)
  show ?thesis
    using out pre l1 l2 rep
    by (intro exI [of _ "pre @ (new1 @ blk) @ out"] exI [of _ m]) simp
qed


lemma run_target_all_fail:
  assumes conn: "r_client p = Some c"
    and retry: "Retry p"
    and n: "1 \<le> n" "int n = sint (RetryCount p)"
    and fails: "\<forall>i<n. RunTest E probe (n_runs tr + i) tst target opts \<noteq> None"
  shows "\<exists>new m. run_target E p (Some probe) tst opts testType testTarget target tr
                   = Some (Normal (), tr @ new) \<and>
           runs new = replicate n (tst, target, opts) \<and>
           sleeps new = replicate n (RetryDelay p) \<and>
           pushes new = [(''overseer.results'', m)] \<and>
           wire_Result (tst\<lparr>Target := target, Input := Sanitize E tst\<rparr>)
             (RunTest E probe (n_runs tr + (n - 1)) tst target opts) m \<and>
           lookups new = []"
proof -
  have budget: "attempt_budget p = RetryCount p"
    using retry by (simp add: attempt_budget_def)
  from running_block [of p "Running testType testTarget target" tr] obtain pre where
    pre: "verbose p (Running testType testTarget target) tr = tr @ pre"
      "runs pre = []" "sleeps pre = []" "pushes pre = []" "lookups pre = []"
    by blast
  have n0: "n_runs (tr @ pre) = n_runs tr"
    by (simp add: n_runs_def pre)
  have f: "\<forall>i<n. RunTest E probe (n_runs (tr @ pre) + i) tst target opts \<noteq> None"
    using fails n0 by simp
  have b: "sint (0::64 word) + int n \<le> sint (RetryCount p)"
    using n by simp
  from attempts_fails [OF f b, of p None] obtain a' new1 where
    l1: "attempts E p (Some probe) tst target opts (RetryCount p) 0 None (tr @ pre) =
         attempts E p (Some probe) tst target opts (RetryCount p) a'
           (if n = 0 then None
            else RunTest E probe (n_runs (tr @ pre) + (n - 1)) tst target opts)
           ((tr @ pre) @ new1)"
      "sint a' = sint (0::64 word) + int n"
      "runs new1 = replicate n (tst, target, opts)"
      "sleeps new1 = replicate n (RetryDelay p)"
      "pushes new1 = []" "lookups new1 = []"
    by blast
  have stop: "\<not> sint a' < sint (RetryCount p)"
    using l1(2) n by simp
  have att: "attempts E p (Some probe) tst target opts (attempt_budget p) 0 None (tr @ pre)
               = Some (Normal (RunTest E probe (n_runs tr + (n - 1)) tst target opts),
                   (tr @ pre) @ new1)"
    using l1(1) n(1) n0 budget by (simp add: attempts_stop [OF stop])
  from run_target_after_attempts [OF conn att pre(1)] obtain out m where
    out: "run_target E p (Some probe) tst opts testType testTarget target tr
            = Some (Normal (), tr @ pre @ new1 @ out)"
      "pushes out = [(''overseer.results'', m)]"
      "wire_Result (tst\<lparr>Target := target, Input := Sanitize E tst\<rparr>)
         (RunTest E probe (n_runs tr + (n - 1)) tst target opts) m"
      "runs out = []" "sleeps out = []" "lookups out = []"
    by blast
  show ?thesis
    using out pre l1
    by (intro exI [of _ "pre @ new1 @ out"] exI [of _ m]) simp
qed

lemma run_target_returns:
  assumes conn: "r_client p = Some c"
    and nowrap: "sint (attempt_budget p) < 2 ^ 63 - 1"
  shows "\<exists>new m r n. run_target E p (Some probe) tst opts testType testTarget target tr
                       = Some (Normal (), tr @ new) \<and>
           runs new = replicate n (tst, target, opts) \<and>
           (if 0 < sint (attempt_budget p) then 1 \<le> n else n = 0) \<and>
           pushes new = [(''overseer.results'', m)] \<and>
           wire_Result (tst\<lparr>Target := target, Input := Sanitize E tst\<rparr>) r m \<and>
           lookups new = []"
proof -
  from running_block [of p "Running testType testTarget target" tr] obtain pre where
    pre: "verbose p (Running testType testTarget target) tr = tr @ pre"
      "runs pre = []" "sleeps pre = []" "pushes pre = []" "lookups pre = []"
    by blast
  from attempts_terminates [OF nowrap, of E p probe tst target opts 0 None "tr @ pre"]
  obtain r mid n where
    mid: "attempts E p (Some probe) tst target opts (attempt_budget p) 0 None (tr @ pre)
            = Some (Normal r, (tr @ pre) @ mid)"
      "runs mid = replicate n (tst, target, opts)" "pushes mid = []" "lookups mid = []"
      "if sint (0::64 word) < sint (attempt_budget p) then 1 \<le> n else n = 0"
    by blast
  from run_target_after_attempts [OF conn mid(1) pre(1)] obtain out m where
    out: "run_target E p (Some probe) tst opts testType testTarget target tr
            = Some (Normal (), tr @ pre @ mid @ out)"
      "pushes out = [(''overseer.results'', m)]"
      "wire_Result (tst\<lparr>Target := target, Input := Sanitize E tst\<rparr>) r m"
      "runs out = []" "sleeps out = []" "lookups out = []"
    by blast
  show ?thesis
    using out pre mid
    by (intro exI [of _ "pre @ mid @ out"] exI [of _ m] exI [of _ r] exI [of _ n]) simp
qed

lemma run_targets_fanout:
  assumes conn: "r_client p = Some c"
    and nowrap: "sint (attempt_budget p) < 2 ^ 63 - 1"
  shows "\<exists>new ns. run_targets E p (Some probe) tst opts testType testTarget targets tr
                    = Some (Normal (), tr @ new) \<and>
           list_all2 (\<lambda>t qm. fst qm = ''overseer.results'' \<and>
                        (\<exists>r. wire_Result (tst\<lparr>Target := t, Input := Sanitize E tst\<rparr>) r (snd qm)))
             targets (pushes new) \<and>
           length ns = length targets \<and>
           list_all (\<lambda>n. if 0 < sint (attempt_budget p) then 1 \<le> n else n = 0) ns \<and>
           runs new = concat (map2 (\<lambda>n t. replicate n (tst, t, opts)) ns targets) \<and>
           lookups new = []"
proof (induction targets arbitrary: tr)
  case Nil
  show ?case
    by (intro exI [of _ "[]"]) simp
next
  case (Cons t targets)
  from run_target_returns [OF conn nowrap, of E probe tst opts testType testTarget t tr]
  obtain new1 m r n where
    h: "run_target E p (Some probe) tst opts testType testTarget t tr = Some (Normal (), tr @ new1)"
      "runs new1 = replicate n (tst, t, opts)"
      "if 0 < sint (attempt_budget p) then 1 \<le> n else n = 0"
      "pushes new1 = [(''overseer.results'', m)]"
      "wire_Result (tst\<lparr>Target := t, Input := Sanitize E tst\<rparr>) r m"
      "lookups new1 = []"
    by blast
  from Cons.IH [of "tr @ new1"] obtain new2 ns where
    ih: "run_targets E p (Some probe) tst opts testType testTarget targets (tr @ new1)
           = Some (Normal (), (tr @ new1) @ new2)"
      "list_all2 (\<lambda>t qm. fst qm = ''overseer.results'' \<and>
                        (\<exists>r. wire_Result (tst\<lparr>Target := t, Input := Sanitize E tst\<rparr>) r (snd qm)))
             targets (pushes new2)"
      "length ns = length targets"
      "list_all (\<lambda>n. if 0 < sint (attempt_budget p) then 1 \<le> n else n = 0) ns"
      "runs new2 = concat (map2 (\<lambda>n t. replicate n (tst, t, opts)) ns targets)"
      "lookups new2 = []"
    by blast
  show ?case
    using h ih
    by (intro exI [of _ "new1 @ new2"] exI [of _ "n # ns"]) auto
qed

subsection \<open>The largest attempt budget\<close>

text \<open>
  With \<^verbatim>\<open>maxAttempts\<close> the largest integer a passing test does not leave the loop, and
  against a test that always passes the loop never returns.
\<close>

lemma attempts_pass_wraps:
  assumes "sint attempt < sint maxAttempts"
    and "RunTest E probe (n_runs tr) tst target opts = None"
    and "maxAttempts = 0x7FFFFFFFFFFFFFFF"
  shows "attempts E p (Some probe) tst target opts maxAttempts attempt result tr =
         attempts E p (Some probe) tst target opts maxAttempts 0x8000000000000000 None
           (verbose p (TestPassed (attempt + 1) maxAttempts) (tr @ [RunTestCall tst target opts]))"
  using assms by (subst attempts.simps) (simp add: Let_def)

lemma attempts_never_returns_aux:
  assumes "attempts E p tmp tst target opts maxAttempts attempt result tr = Some y"
  shows "\<not> (tmp = Some probe \<and> maxAttempts = 0x7FFFFFFFFFFFFFFF \<and>
            (\<forall>i. RunTest E probe i tst target opts = None) \<and>
            sint attempt < sint maxAttempts)"
  using assms
proof (induction rule: attempts.raw_induct [rotated, consumes 1])
  case (1 attempts' E p tmp tst target opts maxAttempts attempt result tr y)
  show ?case
  proof
    assume bad: "tmp = Some probe \<and> maxAttempts = 0x7FFFFFFFFFFFFFFF \<and>
            (\<forall>i. RunTest E probe i tst target opts = None) \<and>
            sint attempt < sint maxAttempts"
    then have t: "tmp = Some probe" and pass: "RunTest E probe (n_runs tr) tst target opts = None"
      and lt: "sint attempt < sint maxAttempts"
      by blast+
    have "attempts' E p tmp tst target opts maxAttempts (maxAttempts + 1) None
        (verbose p (TestPassed (attempt + 1) maxAttempts) (tr @ [RunTestCall tst target opts])) = Some y"
      using 1(2) lt pass unfolding t by (simp add: Let_def)
    from 1(1) [OF this] bad show False
      by simp
  qed
qed

lemma attempts_never_returns:
  assumes "\<forall>i. RunTest E probe i tst target opts = None"
    and "sint attempt < sint (0x7FFFFFFFFFFFFFFF :: 64 word)"
  shows "attempts E p (Some probe) tst target opts 0x7FFFFFFFFFFFFFFF attempt result tr = None"
proof (cases "attempts E p (Some probe) tst target opts 0x7FFFFFFFFFFFFFFF attempt result tr")
  case None
  then show ?thesis .
next
  case (Some y)
  from attempts_never_returns_aux [OF Some, of probe] assms show ?thesis
    by simp
qed

subsection \<open>The whole of runTest\<close>

lemma fanout_calls_original:
  "list_all (\<lambda>r. fst r = tst) (concat (map2 (\<lambda>n t. replicate n (tst, t, opts)) ns targets))"
  by (auto simp: list_all_iff)

lemma fanout_call_targets:
  "map (\<lambda>r. fst (snd r)) (concat (map2 (\<lambda>n t. replicate n (tst, t, opts)) ns (map f xs)))
     = concat (map2 (\<lambda>n x. replicate n (f x)) ns xs)"
proof (induction ns arbitrary: xs)
  case Nil
  show ?case by simp
next
  case (Cons n ns)
  show ?case
    using Cons.IH by (cases xs) simp_all
qed

lemma runTest_resolved:
  assumes "uri_host E (Target tst) = Inr h" and "LookupIP E h = Inr ips"
  shows "runTest E p tst opts tr =
           (case run_targets E p (ProtocolHandler E (Type tst)) tst opts (Type tst) h
                   (map (IP_String E) (filter (family_enabled p) ips)) (tr @ [Lookup h]) of
              None \<Rightarrow> None
            | Some (Panic, tr') \<Rightarrow> Some (Panic, tr')
            | Some (Normal u, tr') \<Rightarrow> Some (Normal None, tr'))"
  using assms by (simp add: runTest_def Let_def collect_targets_filter)

lemma runTest_unresolved:
  assumes "uri_host E (Target tst) = Inr h" and "LookupIP E h = Inl e"
  shows "runTest E p tst opts tr =
           Some (Normal (Some e),
             snd (notify E p tst (Some (''Failed to resolve name '' @ h)) (tr @ [Lookup h]))
             @ [Printf (ResolveWarning h (Type tst))])"
  using assms by (simp add: runTest_def Let_def)

lemma example_family:
  "filter (family_enabled p) [example_v4, example_v6] =
     (if IPv4 p then [example_v4] else []) @ (if IPv6 p then [example_v6] else [])"
  by (simp add: family_enabled_def is_IPv4_def is_IPv6_def To4_def To16_def example_v4_def
      example_v6_def v4InV6Prefix_def)



lemma run_target_never_returns:
  assumes "Retry p" and "RetryCount p = 0x7FFFFFFFFFFFFFFF"
    and "\<forall>i. RunTest E probe i tst target opts = None"
  shows "run_target E p (Some probe) tst opts testType testTarget target tr = None"
proof -
  have b: "attempt_budget p = 0x7FFFFFFFFFFFFFFF"
    using assms(1,2) by (simp add: attempt_budget_def)
  have lt: "sint (0::64 word) < sint (0x7FFFFFFFFFFFFFFF :: 64 word)"
    by simp
  show ?thesis
    unfolding run_target_unfold b
    by (simp add: attempts_never_returns [OF assms(3) lt])
qed

lemma run_target_zero_budget:
  assumes conn: "r_client p = Some c"
    and zero: "\<not> 0 < sint (attempt_budget p)"
  shows "\<exists>out m. run_target E p tmp tst opts testType testTarget target tr
                   = Some (Normal (), tr @ out) \<and>
           runs out = [] \<and> sleeps out = [] \<and> lookups out = [] \<and>
           pushes out = [(''overseer.results'', m)] \<and>
           wire_Result (tst\<lparr>Target := target, Input := Sanitize E tst\<rparr>) None m"
proof -
  from running_block [of p "Running testType testTarget target" tr] obtain pre where
    pre: "verbose p (Running testType testTarget target) tr = tr @ pre"
      "runs pre = []" "sleeps pre = []" "pushes pre = []" "lookups pre = []"
    by blast
  have stop: "\<not> sint (0::64 word) < sint (attempt_budget p)"
    using zero by simp
  have att: "attempts E p tmp tst target opts (attempt_budget p) 0 None (tr @ pre)
               = Some (Normal None, (tr @ pre) @ [])"
    by (simp add: attempts_stop [OF stop])
  from run_target_after_attempts [OF conn att pre(1)] obtain out m where
    out: "run_target E p tmp tst opts testType testTarget target tr
            = Some (Normal (), tr @ pre @ [] @ out)"
      "pushes out = [(''overseer.results'', m)]"
      "wire_Result (tst\<lparr>Target := target, Input := Sanitize E tst\<rparr>) None m"
      "runs out = []" "sleeps out = []" "lookups out = []"
    by blast
  show ?thesis
    using out pre
    by (intro exI [of _ "pre @ out"] exI [of _ m]) simp
qed

text \<open>
  With an attempt budget from 1 to below the largest integer, every resolved address
  of an enabled family is tested at least once and gets exactly one Result.
\<close>

lemma runTest_fanout_in_budget:
  assumes "r_client p = Some c"
    and "ProtocolHandler E (Type tst) = Some probe"
    and "uri_host E (Target tst) = Inr h"
    and "LookupIP E h = Inr ips"
    and "0 < sint (attempt_budget p)"
    and "sint (attempt_budget p) < 2 ^ 63 - 1"
  shows "\<exists>new ns. runTest E p tst opts tr = Some (Normal None, tr @ new) \<and>
           lookups new = [h] \<and>
           list_all2 (\<lambda>ip qm. fst qm = ''overseer.results'' \<and>
                         snd qm ''target'' = Some (IP_String E ip))
             (filter (family_enabled p) ips) (pushes new) \<and>
           length ns = length (filter (family_enabled p) ips) \<and>
           list_all (\<lambda>n. 1 \<le> n) ns \<and>
           map (\<lambda>r. fst (snd r)) (runs new)
             = concat (map2 (\<lambda>n ip. replicate n (IP_String E ip)) ns
                        (filter (family_enabled p) ips))"
proof -
  let ?targets = "map (IP_String E) (filter (family_enabled p) ips)"
  from run_targets_fanout [OF assms(1,6), of E probe tst opts "Type tst" h ?targets
      "tr @ [Lookup h]"]
  obtain new ns where
    f: "run_targets E p (Some probe) tst opts (Type tst) h ?targets (tr @ [Lookup h])
          = Some (Normal (), (tr @ [Lookup h]) @ new)"
      "list_all2 (\<lambda>t qm. fst qm = ''overseer.results'' \<and>
                    (\<exists>r. wire_Result (tst\<lparr>Target := t, Input := Sanitize E tst\<rparr>) r (snd qm)))
         ?targets (pushes new)"
      "length ns = length ?targets"
      "list_all (\<lambda>n. if 0 < sint (attempt_budget p) then 1 \<le> n else n = 0) ns"
      "runs new = concat (map2 (\<lambda>n t. replicate n (tst, t, opts)) ns ?targets)"
      "lookups new = []"
    by blast
  have run: "runTest E p tst opts tr = Some (Normal None, tr @ [Lookup h] @ new)"
    using assms(2,3,4) f(1) by (simp add: runTest_def collect_targets_filter)
  have msgs: "list_all2 (\<lambda>ip qm. fst qm = ''overseer.results'' \<and>
                         snd qm ''target'' = Some (IP_String E ip))
             (filter (family_enabled p) ips) (pushes new)"
    using f(2) by (simp add: list_all2_map1 wire_Result_def) (erule list_all2_mono, auto)
  show ?thesis
    using run msgs f(3,4,5,6) assms(5)
    by (intro exI [of _ "[Lookup h] @ new"] exI [of _ ns]) (simp add: fanout_call_targets)
qed

section \<open>Properties of the worker\<close>

subsection \<open>Resolution\<close>

text \<open>
  Claim C7. If the lookup of the target's host fails, \<^verbatim>\<open>runTest\<close> of a connected worker
  pushes exactly one Result message, with result \<^verbatim>\<open>failed\<close> and the error
  \<^verbatim>\<open>Failed to resolve name\<close> followed by the host, invokes \<^verbatim>\<open>RunTest\<close> zero times and
  returns the error of the lookup: no address is tested.
\<close>

theorem C7_resolution_failure:
  assumes "r_client p = Some c"
    and "uri_host E (Target tst) = Inr h"
    and "LookupIP E h = Inl e"
  shows "\<exists>new m. runTest E p tst opts tr = Some (Normal (Some e), tr @ new) \<and>
           pushes new = [(''overseer.results'', m)] \<and>
           m ''result'' = Some ''failed'' \<and>
           m ''error'' = Some (''Failed to resolve name '' @ h) \<and>
           runs new = [] \<and> lookups new = [h]"
proof -
  from notify_connected [OF assms(1), of E tst "Some (''Failed to resolve name '' @ h)"
      "tr @ [Lookup h]"]
  obtain out m where
    out: "snd (notify E p tst (Some (''Failed to resolve name '' @ h)) (tr @ [Lookup h]))
            = (tr @ [Lookup h]) @ out"
      "pushes out = [(''overseer.results'', m)]"
      "wire_Result tst (Some (''Failed to resolve name '' @ h)) m"
      "runs out = []" "lookups out = []"
    by blast
  show ?thesis
    using assms(2,3) out
    by (intro exI [of _ "[Lookup h] @ out @ [Printf (ResolveWarning h (Type tst))]"] exI [of _ m])
       (simp add: runTest_def wire_Result_def)
qed

theorem C7_witness:
  "r_client example_worker = Some (NewClient ''localhost:6379'' [] 0) \<and>
   uri_host (example_env (\<lambda>i. None)) (Target (https_test\<lparr>Target := ''nowhere.invalid''\<rparr>))
     = Inr ''nowhere.invalid'' \<and>
   LookupIP (example_env (\<lambda>i. None)) ''nowhere.invalid''
     = Inl ''lookup nowhere.invalid: no such host'' \<and>
   (\<exists>new m.
      runTest (example_env (\<lambda>i. None)) example_worker
        (https_test\<lparr>Target := ''nowhere.invalid''\<rparr>) example_opts []
        = Some (Normal (Some ''lookup nowhere.invalid: no such host''), [] @ new) \<and>
      pushes new = [(''overseer.results'', m)] \<and>
      m ''result'' = Some ''failed'' \<and>
      m ''error'' = Some ''Failed to resolve name nowhere.invalid'' \<and>
      runs new = [] \<and> lookups new = [''nowhere.invalid''])"
  using C7_resolution_failure [of example_worker "NewClient ''localhost:6379'' [] 0"
      "example_env (\<lambda>i. None)" "https_test\<lparr>Target := ''nowhere.invalid''\<rparr>"
      "''nowhere.invalid''" "''lookup nowhere.invalid: no such host''" example_opts "[]"]
  by (simp add: uri_host_def example_env_def https_test_def example_worker_def)

text \<open>
  Claim C10. If the lookup succeeds and no resolved address is of an enabled family,
  \<^verbatim>\<open>runTest\<close> invokes no protocol test, pushes no Result message and returns nil: the
  lookup is its only effect.
\<close>

theorem C10_disabled_families_silent:
  assumes "uri_host E (Target tst) = Inr h"
    and "LookupIP E h = Inr ips"
    and "\<forall>ip \<in> set ips. \<not> family_enabled p ip"
  shows "\<exists>new. runTest E p tst opts tr = Some (Normal None, tr @ new) \<and>
           new = [Lookup h] \<and> runs new = [] \<and> pushes new = []"
proof -
  have "filter (family_enabled p) ips = []"
    using assms(3) by (simp add: filter_empty_conv)
  then show ?thesis
    using assms(1,2) by (simp add: runTest_def collect_targets_filter)
qed

theorem C10_witness:
  "uri_host (example_env (\<lambda>i. None)) (Target (https_test\<lparr>Target := ''ipv6.example.com''\<rparr>))
     = Inr ''ipv6.example.com'' \<and>
   LookupIP (example_env (\<lambda>i. None)) ''ipv6.example.com'' = Inr [example_v6] \<and>
   list_all (\<lambda>ip. \<not> family_enabled (example_worker\<lparr>IPv6 := False\<rparr>) ip) [example_v6] \<and>
   runTest (example_env (\<lambda>i. None)) (example_worker\<lparr>IPv6 := False\<rparr>)
     (https_test\<lparr>Target := ''ipv6.example.com''\<rparr>) example_opts []
     = Some (Normal None, [Lookup ''ipv6.example.com''])"
  using C10_disabled_families_silent [of "example_env (\<lambda>i. None)"
      "https_test\<lparr>Target := ''ipv6.example.com''\<rparr>" "''ipv6.example.com''" "[example_v6]"
      "example_worker\<lparr>IPv6 := False\<rparr>" example_opts "[]"]
  by (simp add: uri_host_def example_env_def https_test_def example_worker_def
      family_enabled_def is_IPv4_def is_IPv6_def To4_def To16_def example_v6_def v4InV6Prefix_def)

text \<open>
  Claim C1 says that a test whose protocol test declares \<^verbatim>\<open>ShouldResolveHostname()\<close> false
  is run once against its unresolved target, with no lookup. The worker never asks the
  protocol test: it looks every target up. For the check \<^verbatim>\<open>default/kubernetes must run
  k8s-svc\<close> of the repository's example, whose protocol test declares false, the worker
  looks \<^verbatim>\<open>default/kubernetes\<close> up, the lookup fails, \<^verbatim>\<open>RunTest\<close> is never invoked and
  the one Result is the resolution failure.
\<close>

theorem C1_k8s_svc_target_is_resolved:
  "ShouldResolveHostname (example_env (\<lambda>i. None)) K8SSvcTest = False \<and>
   ProtocolHandler (example_env (\<lambda>i. None)) (Type k8s_test) = Some K8SSvcTest \<and>
   (\<exists>tr m.
      runTest (example_env (\<lambda>i. None)) example_worker k8s_test example_opts []
        = Some (Normal (Some ''lookup default/kubernetes: no such host''), tr) \<and>
      lookups tr = [''default/kubernetes''] \<and>
      runs tr = [] \<and>
      pushes tr = [(''overseer.results'', m)] \<and>
      m ''result'' = Some ''failed'' \<and>
      m ''error'' = Some ''Failed to resolve name default/kubernetes'')"
proof -
  have host: "uri_host (example_env (\<lambda>i. None)) (Target k8s_test) = Inr ''default/kubernetes''"
    by (simp add: uri_host_def k8s_test_def)
  have dns: "LookupIP (example_env (\<lambda>i. None)) ''default/kubernetes''
               = Inl ''lookup default/kubernetes: no such host''"
    by (simp add: example_env_def)
  have decl: "ShouldResolveHostname (example_env (\<lambda>i. None)) K8SSvcTest = False"
    by (simp add: example_env_def K8SSvcTest_ShouldResolveHostname_def)
  have reg: "ProtocolHandler (example_env (\<lambda>i. None)) (Type k8s_test) = Some K8SSvcTest"
    by (simp add: example_env_def k8s_test_def)
  have run: "\<exists>tr m.
      runTest (example_env (\<lambda>i. None)) example_worker k8s_test example_opts []
        = Some (Normal (Some ''lookup default/kubernetes: no such host''), tr) \<and>
      lookups tr = [''default/kubernetes''] \<and>
      runs tr = [] \<and>
      pushes tr = [(''overseer.results'', m)] \<and>
      m ''result'' = Some ''failed'' \<and>
      m ''error'' = Some ''Failed to resolve name default/kubernetes''"
    unfolding runTest_unresolved [OF host dns]
    by (simp add: notify_def json_Marshal_def Let_def example_worker_def example_env_def)
  show ?thesis
    using decl reg run by blast
qed

text \<open>
  Claim C3 says that every Result message carries the sanitized input. The message of
  a resolution failure is built from the test itself, not from a sanitized copy: its
  \<^verbatim>\<open>input\<close> is the raw line, password included, where \<^verbatim>\<open>Sanitize\<close> would have censored
  it.
\<close>

theorem C3_resolution_failure_publishes_raw_input:
  "Contains (Input unresolvable_test) ''hunter2'' \<and>
   Sanitize (example_env (\<lambda>i. None)) unresolvable_test
     = ''nowhere.invalid must run https with password CENSORED'' \<and>
   (\<exists>tr m.
      runTest (example_env (\<lambda>i. None)) example_worker unresolvable_test example_opts []
        = Some (Normal (Some ''lookup nowhere.invalid: no such host''), tr) \<and>
      pushes tr = [(''overseer.results'', m)] \<and>
      m ''input'' = Some ''nowhere.invalid must run https with password hunter2'')"
proof -
  have host: "uri_host (example_env (\<lambda>i. None)) (Target unresolvable_test) = Inr ''nowhere.invalid''"
    by (simp add: uri_host_def unresolvable_test_def)
  have dns: "LookupIP (example_env (\<lambda>i. None)) ''nowhere.invalid''
               = Inl ''lookup nowhere.invalid: no such host''"
    by (simp add: example_env_def)
  have san: "Sanitize (example_env (\<lambda>i. None)) unresolvable_test
     = ''nowhere.invalid must run https with password CENSORED''"
    by (simp add: example_env_def censor_password_def unresolvable_test_def)
  have raw: "Contains (Input unresolvable_test) ''hunter2''"
    by (simp add: unresolvable_test_def)
  have run: "\<exists>tr m.
      runTest (example_env (\<lambda>i. None)) example_worker unresolvable_test example_opts []
        = Some (Normal (Some ''lookup nowhere.invalid: no such host''), tr) \<and>
      pushes tr = [(''overseer.results'', m)] \<and>
      m ''input'' = Some ''nowhere.invalid must run https with password hunter2''"
    unfolding runTest_unresolved [OF host dns]
    by (simp add: notify_def json_Marshal_def Let_def example_worker_def example_env_def
        unresolvable_test_def)
  show ?thesis
    using raw san run by blast
qed

subsection \<open>The attempts against one target\<close>

text \<open>
  Claim C5 says that a test passing on attempt k, with k at most the \<^verbatim>\<open>RetryCount\<close> N, is
  invoked exactly k times and gets a \<^verbatim>\<open>passed\<close> Result. The worker leaves the loop by
  \<^verbatim>\<open>attempt = maxAttempts + 1\<close>, which wraps when N is the largest integer: with that
  \<^verbatim>\<open>RetryCount\<close> and a test that passes on the first attempt, and on every later one,
  the loop is never left, \<^verbatim>\<open>runTest\<close> does not return and no Result is pushed. For every
  smaller N the claim holds (\<open>run_target_pass_at\<close>).
\<close>

theorem C5_largest_count_never_leaves_the_loop:
  "RunTest (example_env (\<lambda>i. None)) ScriptedTest 0 https_test ''93.184.216.34'' example_opts
     = None \<and>
   runTest (example_env (\<lambda>i. None))
     (example_worker\<lparr>IPv6 := False, RetryCount := 0x7FFFFFFFFFFFFFFF\<rparr>) https_test
     example_opts [] = None"
proof -
  let ?E = "example_env (\<lambda>i. None)"
  let ?p = "example_worker\<lparr>IPv6 := False, RetryCount := 0x7FFFFFFFFFFFFFFF\<rparr>"
  have pass: "\<forall>i. RunTest ?E ScriptedTest i https_test ''93.184.216.34'' example_opts = None"
    by (simp add: example_env_def)
  have retry: "Retry ?p" and count: "RetryCount ?p = 0x7FFFFFFFFFFFFFFF"
    by (simp_all add: example_worker_def)
  have never: "run_target ?E ?p (Some ScriptedTest) https_test example_opts ''https''
      ''example.com'' ''93.184.216.34'' ([] @ [Lookup ''example.com'']) = None"
    by (rule run_target_never_returns [OF retry count pass])
  have host: "uri_host ?E (Target https_test) = Inr ''example.com''"
    by (simp add: uri_host_def example_env_def https_test_def)
  have dns: "LookupIP ?E ''example.com'' = Inr [example_v4, example_v6]"
    by (simp add: example_env_def)
  have ty: "Type https_test = ''https''"
    by (simp add: https_test_def)
  have reg2: "ProtocolHandler ?E ''https'' = Some ScriptedTest"
    by (simp add: example_env_def)
  have targets: "map (IP_String ?E) (filter (family_enabled ?p) [example_v4, example_v6])
                   = [''93.184.216.34'']"
    unfolding example_family
    by (simp add: example_worker_def example_env_def)
  have "runTest ?E ?p https_test example_opts [] = None"
    by (simp only: runTest_resolved [OF host dns] ty reg2 targets run_targets.simps never
        option.case)
  then show ?thesis
    using pass by simp
qed

text \<open>
  Claim C4 says that a test failing on all of N attempts is followed by N - 1 sleeps,
  none after the last attempt. The worker sleeps after every failing attempt, the last
  one too: with \<^verbatim>\<open>RetryCount\<close> 3 and a test that always fails, \<^verbatim>\<open>RunTest\<close> is invoked
  3 times, the worker sleeps 3 times, and the Result carries the error of the last
  attempt.
\<close>

theorem C4_sleep_follows_the_last_attempt:
  "\<exists>tr m.
     runTest (example_env (\<lambda>i. Some ''connection refused''))
       (example_worker\<lparr>IPv6 := False, RetryCount := 3\<rparr>) https_test example_opts []
       = Some (Normal None, tr) \<and>
     runs tr = replicate 3 (https_test, ''93.184.216.34'', example_opts) \<and>
     sleeps tr = replicate 3 (RetryDelay (example_worker\<lparr>IPv6 := False, RetryCount := 3\<rparr>)) \<and>
     pushes tr = [(''overseer.results'', m)] \<and>
     m ''result'' = Some ''failed'' \<and> m ''error'' = Some ''connection refused''"
proof -
  let ?E = "example_env (\<lambda>i. Some ''connection refused'')"
  let ?p = "example_worker\<lparr>IPv6 := False, RetryCount := 3\<rparr>"
  have conn: "r_client ?p = Some (NewClient ''localhost:6379'' [] 0)"
    by (simp add: example_worker_def)
  have retry: "Retry ?p"
    by (simp add: example_worker_def)
  have n: "(1::nat) \<le> 3" "int 3 = sint (RetryCount ?p)"
    by simp_all
  have fails: "\<forall>i<3. RunTest ?E ScriptedTest (n_runs [Lookup ''example.com''] + i) https_test
                  ''93.184.216.34'' example_opts \<noteq> None"
    by (simp add: example_env_def)
  from run_target_all_fail [OF conn retry n fails, of "''https''" "''example.com''"]
  obtain new m where
    h: "run_target ?E ?p (Some ScriptedTest) https_test example_opts ''https'' ''example.com''
          ''93.184.216.34'' [Lookup ''example.com''] = Some (Normal (), [Lookup ''example.com''] @ new)"
      "runs new = replicate 3 (https_test, ''93.184.216.34'', example_opts)"
      "sleeps new = replicate 3 (RetryDelay ?p)"
      "pushes new = [(''overseer.results'', m)]"
      "wire_Result (https_test\<lparr>Target := ''93.184.216.34'', Input := Sanitize ?E https_test\<rparr>)
         (RunTest ?E ScriptedTest (n_runs [Lookup ''example.com''] + (3 - 1)) https_test
            ''93.184.216.34'' example_opts) m"
    by blast
  have targets: "map (IP_String ?E) (filter (family_enabled ?p) [example_v4, example_v6])
                   = [''93.184.216.34'']"
    unfolding example_family
    by (simp add: example_worker_def example_env_def)
  have host: "uri_host ?E (Target https_test) = Inr ''example.com''"
    by (simp add: uri_host_def example_env_def https_test_def)
  have dns: "LookupIP ?E ''example.com'' = Inr [example_v4, example_v6]"
    by (simp add: example_env_def)
  have reg: "ProtocolHandler ?E (Type https_test) = Some ScriptedTest"
    by (simp add: example_env_def https_test_def)
  have ty: "Type https_test = ''https''"
    by (simp add: https_test_def)
  have reg2: "ProtocolHandler ?E ''https'' = Some ScriptedTest"
    by (simp add: example_env_def)
  have run: "runTest ?E ?p https_test example_opts []
               = Some (Normal None, [Lookup ''example.com''] @ new)"
    by (simp only: runTest_resolved [OF host dns] ty reg2 targets append_Nil
        run_targets.simps h(1) option.case prod.case exec.case)
  have err: "RunTest ?E ScriptedTest (n_runs [Lookup ''example.com''] + (3 - 1)) https_test
            ''93.184.216.34'' example_opts = Some ''connection refused''"
    by (simp add: example_env_def)
  show ?thesis
    using run h(2,3,4,5) err
    by (intro exI [of _ "[Lookup ''example.com''] @ new"] exI [of _ m])
       (simp add: wire_Result_def)
qed

subsection \<open>One Result per address\<close>

text \<open>
  Claim C6 says that the worker invokes the protocol test and pushes exactly one Result
  for every resolved address of an enabled family. With retrying enabled and a
  \<^verbatim>\<open>RetryCount\<close> of 0 the attempt loop is not entered: the worker pushes one Result per
  address, each \<^verbatim>\<open>passed\<close>, without one invocation of \<^verbatim>\<open>RunTest\<close>, here of a test that
  would fail. With an attempt budget from 1 to below the largest integer the claim
  holds (\<open>runTest_fanout_in_budget\<close>).
\<close>

theorem C6_zero_count_passes_without_a_run:
  "\<exists>tr m1 m2.
     runTest (example_env (\<lambda>i. Some ''connection refused''))
       (example_worker\<lparr>RetryCount := 0\<rparr>) https_test example_opts []
       = Some (Normal None, tr) \<and>
     runs tr = [] \<and>
     pushes tr = [(''overseer.results'', m1), (''overseer.results'', m2)] \<and>
     m1 ''target'' = Some ''93.184.216.34'' \<and> m1 ''result'' = Some ''passed'' \<and>
     m2 ''target'' = Some ''2606:2800:220:1:248:1893:25c8:1946'' \<and>
     m2 ''result'' = Some ''passed''"
proof -
  let ?E = "example_env (\<lambda>i. Some ''connection refused'')"
  let ?p = "example_worker\<lparr>RetryCount := 0\<rparr>"
  let ?tr0 = "[] @ [Lookup ''example.com'']"
  have conn: "r_client ?p = Some (NewClient ''localhost:6379'' [] 0)"
    by (simp add: example_worker_def)
  have zero: "\<not> 0 < sint (attempt_budget ?p)"
    by (simp add: attempt_budget_def example_worker_def)
  from run_target_zero_budget [OF conn zero, of ?E "Some ScriptedTest" https_test example_opts
      "''https''" "''example.com''" "''93.184.216.34''" ?tr0]
  obtain out1 m1 where
    h1: "run_target ?E ?p (Some ScriptedTest) https_test example_opts ''https'' ''example.com''
           ''93.184.216.34'' ?tr0 = Some (Normal (), ?tr0 @ out1)"
      "runs out1 = []" "pushes out1 = [(''overseer.results'', m1)]"
      "wire_Result (https_test\<lparr>Target := ''93.184.216.34'', Input := Sanitize ?E https_test\<rparr>)
         None m1"
    by blast
  from run_target_zero_budget [OF conn zero, of ?E "Some ScriptedTest" https_test example_opts
      "''https''" "''example.com''" "''2606:2800:220:1:248:1893:25c8:1946''" "?tr0 @ out1"]
  obtain out2 m2 where
    h2: "run_target ?E ?p (Some ScriptedTest) https_test example_opts ''https'' ''example.com''
           ''2606:2800:220:1:248:1893:25c8:1946'' (?tr0 @ out1) = Some (Normal (), (?tr0 @ out1) @ out2)"
      "runs out2 = []" "pushes out2 = [(''overseer.results'', m2)]"
      "wire_Result (https_test\<lparr>Target := ''2606:2800:220:1:248:1893:25c8:1946'',
           Input := Sanitize ?E https_test\<rparr>) None m2"
    by blast
  have host: "uri_host ?E (Target https_test) = Inr ''example.com''"
    by (simp add: uri_host_def example_env_def https_test_def)
  have dns: "LookupIP ?E ''example.com'' = Inr [example_v4, example_v6]"
    by (simp add: example_env_def)
  have ty: "Type https_test = ''https''"
    by (simp add: https_test_def)
  have reg2: "ProtocolHandler ?E ''https'' = Some ScriptedTest"
    by (simp add: example_env_def)
  have targets: "map (IP_String ?E) (filter (family_enabled ?p) [example_v4, example_v6])
                   = [''93.184.216.34'', ''2606:2800:220:1:248:1893:25c8:1946'']"
    unfolding example_family
    by (simp add: example_worker_def example_env_def example_v4_def example_v6_def)
  have run: "runTest ?E ?p https_test example_opts []
               = Some (Normal None, (?tr0 @ out1) @ out2)"
    by (simp only: runTest_resolved [OF host dns] ty reg2 targets run_targets.simps h1(1) h2(1)
        option.case prod.case exec.case)
  show ?thesis
    using run h1(2,3,4) h2(2,3,4)
    by (intro exI [of _ "(?tr0 @ out1) @ out2"] exI [of _ m1] exI [of _ m2])
       (simp add: wire_Result_def)
qed

text \<open>
  Claim C8. Over any list of targets, the Result pushed for a target is the message
  of the copy of the test in which \<open>Target\<close> is that target and \<open>Input\<close> is the sanitized
  input of the original, all other fields being the original's; and every invocation of
  \<^verbatim>\<open>RunTest\<close>, for the first target as for the later ones, receives the original test.
\<close>

theorem C8_notifications_from_copies:
  assumes "r_client p = Some c"
    and "sint (attempt_budget p) < 2 ^ 63 - 1"
  shows "\<exists>new. run_targets E p (Some probe) tst opts testType testTarget targets tr
                 = Some (Normal (), tr @ new) \<and>
           list_all2 (\<lambda>t qm. \<exists>r. wire_Result (tst\<lparr>Target := t, Input := Sanitize E tst\<rparr>) r (snd qm))
             targets (pushes new) \<and>
           list_all (\<lambda>r. fst r = tst) (runs new)"
proof -
  from run_targets_fanout [OF assms, of E probe tst opts testType testTarget targets tr]
  obtain new ns where
    f: "run_targets E p (Some probe) tst opts testType testTarget targets tr
          = Some (Normal (), tr @ new)"
      "list_all2 (\<lambda>t qm. fst qm = ''overseer.results'' \<and>
                    (\<exists>r. wire_Result (tst\<lparr>Target := t, Input := Sanitize E tst\<rparr>) r (snd qm)))
         targets (pushes new)"
      "runs new = concat (map2 (\<lambda>n t. replicate n (tst, t, opts)) ns targets)"
    by blast
  have "list_all2 (\<lambda>t qm. \<exists>r. wire_Result (tst\<lparr>Target := t, Input := Sanitize E tst\<rparr>) r (snd qm))
             targets (pushes new)"
    using f(2) by (rule list_all2_mono) simp
  then show ?thesis
    using f(1,3) by (intro exI [of _ new]) (simp add: fanout_calls_original)
qed

theorem C8_witness:
  "r_client example_worker = Some (NewClient ''localhost:6379'' [] 0) \<and>
   sint (attempt_budget example_worker) < 2 ^ 63 - 1 \<and>
   Sanitize (example_env (\<lambda>i. None)) login_test
     = ''example.com must run https with password CENSORED'' \<and>
   (\<exists>new.
      run_targets (example_env (\<lambda>i. None)) example_worker (Some ScriptedTest) login_test
        example_opts ''https'' ''example.com''
        [''93.184.216.34'', ''2606:2800:220:1:248:1893:25c8:1946''] [] = Some (Normal (), [] @ new) \<and>
      list_all2 (\<lambda>t qm. \<exists>r. wire_Result
                   (login_test\<lparr>Target := t, Input := Sanitize (example_env (\<lambda>i. None)) login_test\<rparr>)
                   r (snd qm))
        [''93.184.216.34'', ''2606:2800:220:1:248:1893:25c8:1946''] (pushes new) \<and>
      list_all (\<lambda>r. fst r = login_test) (runs new))"
proof -
  have conn: "r_client example_worker = Some (NewClient ''localhost:6379'' [] 0)"
    by (simp add: example_worker_def)
  have bud: "sint (attempt_budget example_worker) < 2 ^ 63 - 1"
    by (simp add: attempt_budget_def example_worker_def)
  have san: "Sanitize (example_env (\<lambda>i. None)) login_test
     = ''example.com must run https with password CENSORED''"
    by (simp add: example_env_def censor_password_def login_test_def)
  show ?thesis
    using C8_notifications_from_copies [OF conn bud, of "example_env (\<lambda>i. None)" ScriptedTest
        login_test example_opts "''https''" "''example.com''"
        "[''93.184.216.34'', ''2606:2800:220:1:248:1893:25c8:1946'']" "[]"]
      conn bud san
    by simp
qed

subsection \<open>The worker loop\<close>




subsection \<open>The Result message\<close>

text \<open>
  Claim C9. The message a connected worker pushes to \<^verbatim>\<open>overseer.results\<close> is an object
  with exactly the fields \<^verbatim>\<open>input\<close>, \<^verbatim>\<open>type\<close>, \<^verbatim>\<open>target\<close>, \<^verbatim>\<open>result\<close> and \<^verbatim>\<open>time\<close> for a
  success, and the field \<^verbatim>\<open>error\<close> besides exactly for a failure; \<^verbatim>\<open>result\<close> is \<^verbatim>\<open>passed\<close>
  or \<^verbatim>\<open>failed\<close>, and \<^verbatim>\<open>failed\<close> exactly when the outcome is an error.
\<close>

theorem C9_result_wire_format:
  assumes "r_client p = Some c"
  shows "\<exists>m. pushes (snd (notify E p test result tr)) = pushes tr @ [(''overseer.results'', m)] \<and>
           dom m = (if result = None then {''input'', ''type'', ''target'', ''result'', ''time''}
                    else {''input'', ''type'', ''target'', ''result'', ''time'', ''error''}) \<and>
           m ''result'' = Some (if result = None then ''passed'' else ''failed'') \<and>
           m ''error'' = result \<and>
           m ''input'' = Some (Input test) \<and> m ''type'' = Some (Type test) \<and>
           m ''target'' = Some (Target test)"
proof -
  from notify_connected [OF assms, of E test result tr] obtain out m where
    "snd (notify E p test result tr) = tr @ out" "pushes out = [(''overseer.results'', m)]"
    "wire_Result test result m"
    by blast
  then show ?thesis
    by (intro exI [of _ m]) (auto simp: wire_Result_def)
qed

theorem C9_witness:
  "r_client example_worker = Some (NewClient ''localhost:6379'' [] 0) \<and>
   (\<exists>m. pushes (snd (notify (example_env (\<lambda>i. None)) example_worker https_test
                       (Some ''connection refused'') []))
          = pushes [] @ [(''overseer.results'', m)] \<and>
        dom m = {''input'', ''type'', ''target'', ''result'', ''time'', ''error''} \<and>
        m ''result'' = Some ''failed'' \<and>
        m ''error'' = Some ''connection refused'' \<and>
        m ''input'' = Some ''https://example.com must run https'' \<and>
        m ''type'' = Some ''https'' \<and>
        m ''target'' = Some ''https://example.com'')"
  using C9_result_wire_format [of example_worker "NewClient ''localhost:6379'' [] 0"
      "example_env (\<lambda>i. None)" https_test "Some ''connection refused''" "[]"]
  by (simp add: example_worker_def https_test_def)

end
